theory Spec2Isabelle
  imports Complex_Main "HOL-Library.Char_ord" "HOL-Library.List_Lexorder"
begin

section \<open>Numbers of the analyzer\<close>

text \<open>
  The analyzer (\<^verbatim>\<open>streamlit_app.py\<close>) computes on numpy \<^verbatim>\<open>float64\<close> values: every
  denominator it divides by is a value of a \<^verbatim>\<open>float64\<close> column, so a division by zero
  raises nothing (the warning is silenced by \<^verbatim>\<open>warnings.filterwarnings('ignore')\<close>) and
  yields an infinity or a NaN. The model keeps these three special values. Its first
  reading of the arithmetic computes exactly on the finite ones; it carries the
  statements in which rounding plays no part (special values, labels, lengths, order).
  The second reading, further down, rounds every operation as \<^verbatim>\<open>float64\<close> does and
  carries the statements about the last place of a result. The sign of zero is not
  modelled (zero is \<^verbatim>\<open>+0.0\<close>, which is what a sum, a mean or a product of non-negative
  numbers gives).
\<close>

datatype float64 = Fin real | PInf | NInf | NaN

fun fneg :: "float64 \<Rightarrow> float64" where
  "fneg (Fin a) = Fin (- a)"
| "fneg PInf = NInf"
| "fneg NInf = PInf"
| "fneg NaN = NaN"

fun fadd :: "float64 \<Rightarrow> float64 \<Rightarrow> float64" where
  "fadd NaN y = NaN"
| "fadd x NaN = NaN"
| "fadd (Fin a) (Fin b) = Fin (a + b)"
| "fadd PInf NInf = NaN"
| "fadd NInf PInf = NaN"
| "fadd PInf y = PInf"
| "fadd NInf y = NInf"
| "fadd (Fin a) y = y"

definition fsub :: "float64 \<Rightarrow> float64 \<Rightarrow> float64" where
  "fsub x y = fadd x (fneg y)"

fun fdiv :: "float64 \<Rightarrow> float64 \<Rightarrow> float64" where
  "fdiv NaN y = NaN"
| "fdiv x NaN = NaN"
| "fdiv (Fin a) (Fin b) =
     (if b = 0 then (if a = 0 then NaN else if 0 < a then PInf else NInf)
      else Fin (a / b))"
| "fdiv (Fin a) y = Fin 0"
| "fdiv PInf (Fin b) = (if 0 \<le> b then PInf else NInf)"
| "fdiv NInf (Fin b) = (if 0 \<le> b then NInf else PInf)"
| "fdiv x y = NaN"

text \<open>The comparisons \<^verbatim>\<open>x > y\<close> and \<^verbatim>\<open>x < y\<close>: false as soon as one side is NaN.\<close>

fun fgt :: "float64 \<Rightarrow> float64 \<Rightarrow> bool" where
  "fgt NaN y = False"
| "fgt x NaN = False"
| "fgt (Fin a) (Fin b) = (b < a)"
| "fgt PInf PInf = False"
| "fgt PInf y = True"
| "fgt NInf y = False"
| "fgt (Fin a) PInf = False"
| "fgt (Fin a) NInf = True"

definition flt :: "float64 \<Rightarrow> float64 \<Rightarrow> bool" where
  "flt x y = fgt y x"

section \<open>Trend classifier and behavior mapper\<close>

text \<open>\<^verbatim>\<open>classify_trend(current_value, ma_value, threshold=0.001)\<close>.\<close>

definition default_threshold :: float64 where
  "default_threshold = Fin (1 / 1000)"

definition classify_trend :: "float64 \<Rightarrow> float64 \<Rightarrow> float64 \<Rightarrow> string" where
  "classify_trend current_value ma_value threshold =
     (let ratio = fdiv (fsub current_value ma_value) ma_value in
      if fgt ratio threshold then ''Increase''
      else if flt ratio (fneg threshold) then ''Decrease''
      else ''Stable'')"

text \<open>The value of the local variable \<^verbatim>\<open>ratio\<close> of \<^verbatim>\<open>classify_trend\<close>.\<close>

definition trend_ratio :: "float64 \<Rightarrow> float64 \<Rightarrow> float64" where
  "trend_ratio current_value ma_value = fdiv (fsub current_value ma_value) ma_value"

text \<open>\<^verbatim>\<open>get_market_behavior\<close>: a dictionary keyed by pairs, read with the default
  \<^verbatim>\<open>"Unknown"\<close>.\<close>

definition behavior_map :: "((string \<times> string) \<times> string) list" where
  "behavior_map =
     [((''Increase'', ''Increase''), ''Buying Pressure''),
      ((''Increase'', ''Decrease''), ''Mild Buying''),
      ((''Increase'', ''Stable''), ''Cautious Buying''),
      ((''Decrease'', ''Increase''), ''Selling Pressure''),
      ((''Decrease'', ''Decrease''), ''Mild Selling''),
      ((''Decrease'', ''Stable''), ''Cautious Selling''),
      ((''Stable'', ''Increase''), ''Volume Spike''),
      ((''Stable'', ''Decrease''), ''Low Activity''),
      ((''Stable'', ''Stable''), ''Stable Market'')]"

definition get_market_behavior :: "string \<Rightarrow> string \<Rightarrow> string" where
  "get_market_behavior price_trend volume_trend =
     (case map_of behavior_map (price_trend, volume_trend) of
        None \<Rightarrow> ''Unknown''
      | Some b \<Rightarrow> b)"

definition trend_labels :: "string list" where
  "trend_labels = [''Increase'', ''Decrease'', ''Stable'']"

section \<open>The data frame\<close>

text \<open>
  The frame is a table with one row per sample; each step of the pipeline adds columns to
  it. A row is a record, a column is read with \<open>map\<close>, and a column assignment
  \<^verbatim>\<open>data[c] = series\<close> pairs row \<open>i\<close> with element \<open>i\<close> of the series (the
  frame's index is \<^verbatim>\<open>0..n-1\<close> after \<^verbatim>\<open>reset_index\<close>). Prices and volumes are finite
  numbers.
\<close>

record sample =
  Timestamp :: int
  Price :: real
  Volume :: real

record ma_row = sample +
  Price_MA :: real
  Volume_MA :: real

record trend_row = ma_row +
  Price_Trend :: string
  Volume_Trend :: string
  Combination :: string
  Behavior :: string

record annotated = trend_row +
  Factor :: real
  Factor_Ratio :: float64

text \<open>
  What ends a run early: the \<^verbatim>\<open>ValueError\<close> of the rolling window, the \<^verbatim>\<open>IndexError\<close>
  of \<^verbatim>\<open>.iloc[0]\<close> on an empty series, and the failed fetch that \<^verbatim>\<open>main\<close> reports with
  \<^verbatim>\<open>st.error\<close>.
\<close>

datatype error = ValueError | IndexError | FetchFailed

section \<open>Moving averages\<close>

text \<open>
  \<^verbatim>\<open>series.rolling(window=window, min_periods=1).mean()\<close>. The window object is
  validated when it is built: an integer window below \<^verbatim>\<open>min_periods = 1\<close> is refused
  with a \<^verbatim>\<open>ValueError\<close>. The mean is computed by the sliding sum of the library: at
  index \<open>i\<close> the value that left the window (index \<open>i - window\<close>) is removed from
  the running sum and count, the value at \<open>i\<close> is added, and the quotient is emitted.
\<close>

fun roll_mean_loop :: "nat \<Rightarrow> real list \<Rightarrow> nat \<Rightarrow> nat \<Rightarrow> real \<Rightarrow> real list \<Rightarrow> real list" where
  "roll_mean_loop w xs i nobs sum_x [] = []"
| "roll_mean_loop w xs i nobs sum_x (x # rest) =
     (let nobs1 = (if w \<le> i then nobs - 1 else nobs);
          sum1 = (if w \<le> i then sum_x - xs ! (i - w) else sum_x);
          nobs2 = nobs1 + 1;
          sum2 = sum1 + x
      in (sum2 / real nobs2) # roll_mean_loop w xs (i + 1) nobs2 sum2 rest)"

definition roll_mean :: "nat \<Rightarrow> real list \<Rightarrow> real list" where
  "roll_mean w xs = roll_mean_loop w xs 0 0 0 xs"

definition rolling_mean :: "int \<Rightarrow> real list \<Rightarrow> error + real list" where
  "rolling_mean window xs =
     (if window < 1 then Inl ValueError else Inr (roll_mean (nat window) xs))"

text \<open>
  The specification's wording of the same engine, for comparison: element \<open>i\<close> is the
  arithmetic mean of the elements \<open>max(0, i-w+1) \<dots> i\<close>, both included.
\<close>

definition trailing_mean :: "nat \<Rightarrow> real list \<Rightarrow> nat \<Rightarrow> real" where
  "trailing_mean w xs i =
     (let lo = nat (max 0 (int i - int w + 1))
      in (\<Sum>k = lo..i. xs ! k) / real (i - lo + 1))"

text \<open>\<^verbatim>\<open>calculate_moving_averages(data, window)\<close>.\<close>

definition calculate_moving_averages :: "sample list \<Rightarrow> int \<Rightarrow> error + ma_row list" where
  "calculate_moving_averages data window =
     (case rolling_mean window (map Price data) of
        Inl e \<Rightarrow> Inl e
      | Inr price_ma \<Rightarrow>
          (case rolling_mean window (map Volume data) of
             Inl e \<Rightarrow> Inl e
           | Inr volume_ma \<Rightarrow>
               Inr (map (\<lambda>(r, p, v).
                      \<lparr>Timestamp = Timestamp r, Price = Price r, Volume = Volume r,
                       Price_MA = p, Volume_MA = v\<rparr>)
                    (zip data (zip price_ma volume_ma)))))"

section \<open>Trend analysis\<close>

text \<open>
  \<^verbatim>\<open>analyze_trends(data)\<close>: the loop over the rows builds one entry per row, with the
  default threshold; the four columns are then added to the frame.
\<close>

definition trend_entry :: "ma_row \<Rightarrow> string \<times> string \<times> string \<times> string" where
  "trend_entry r =
     (let price_trend = classify_trend (Fin (Price r)) (Fin (Price_MA r)) default_threshold;
          volume_trend = classify_trend (Fin (Volume r)) (Fin (Volume_MA r)) default_threshold;
          combination = ''Price '' @ price_trend @ '' & Volume '' @ volume_trend;
          behavior = get_market_behavior price_trend volume_trend
      in (price_trend, volume_trend, combination, behavior))"

definition analyze_trends :: "ma_row list \<Rightarrow> trend_row list" where
  "analyze_trends data =
     (let trends = map trend_entry data in
      map (\<lambda>(r, pt, vt, c, b).
             \<lparr>Timestamp = Timestamp r, Price = Price r, Volume = Volume r,
              Price_MA = Price_MA r, Volume_MA = Volume_MA r,
              Price_Trend = pt, Volume_Trend = vt, Combination = c, Behavior = b\<rparr>)
          (zip data trends))"

section \<open>Factor metrics\<close>

text \<open>
  \<^verbatim>\<open>calculate_factor_metrics(data)\<close>. \<^verbatim>\<open>pct_change\<close> divides the series by itself
  shifted one place down (the first place of the shifted series is NaN) and subtracts
  one; \<^verbatim>\<open>fillna(1)\<close> replaces each NaN of the series by one.
\<close>

definition shift :: "float64 list \<Rightarrow> float64 list" where
  "shift xs = take (length xs) (NaN # xs)"

definition pct_change :: "float64 list \<Rightarrow> float64 list" where
  "pct_change xs = map (\<lambda>(x, prev). fsub (fdiv x prev) (Fin 1)) (zip xs (shift xs))"

definition fillna :: "float64 \<Rightarrow> float64 list \<Rightarrow> float64 list" where
  "fillna v xs = map (\<lambda>x. if x = NaN then v else x) xs"

definition factor_ratio_column :: "real list \<Rightarrow> float64 list" where
  "factor_ratio_column factor =
     fillna (Fin 1) (map (\<lambda>x. fadd x (Fin 1)) (pct_change (map Fin factor)))"

definition calculate_factor_metrics :: "trend_row list \<Rightarrow> annotated list" where
  "calculate_factor_metrics data =
     (let factor = map (\<lambda>r. Price r * Volume r) data;
          factor_ratio = factor_ratio_column factor
      in map (\<lambda>(r, f, q).
             \<lparr>Timestamp = Timestamp r, Price = Price r, Volume = Volume r,
              Price_MA = Price_MA r, Volume_MA = Volume_MA r,
              Price_Trend = Price_Trend r, Volume_Trend = Volume_Trend r,
              Combination = Combination r, Behavior = Behavior r,
              Factor = f, Factor_Ratio = q\<rparr>)
          (zip data (zip factor factor_ratio)))"

section \<open>Dominant behavior\<close>

text \<open>
  \<^verbatim>\<open>data['Behavior'].mode().iloc[0]\<close>. \<^verbatim>\<open>mode\<close> counts the values of the column in
  a table (keys in the order of their first occurrence), keeps the keys whose count is
  the largest one and returns them sorted; \<^verbatim>\<open>.iloc[0]\<close> takes the first, and raises
  \<^verbatim>\<open>IndexError\<close> on an empty result. Labels are compared as Python compares strings,
  character by character.
\<close>

fun count_value :: "('a \<times> nat) list \<Rightarrow> 'a \<Rightarrow> ('a \<times> nat) list" where
  "count_value [] x = [(x, 1)]"
| "count_value ((k, c) # t) x =
     (if k = x then (k, c + 1) # t else (k, c) # count_value t x)"

definition value_count :: "'a list \<Rightarrow> ('a \<times> nat) list" where
  "value_count xs = foldl count_value [] xs"

definition mode :: "('a :: linorder) list \<Rightarrow> 'a list" where
  "mode xs =
     (let table = value_count xs;
          max_count = foldl max 0 (map snd table)
      in sort (map fst (filter (\<lambda>(k, c). c = max_count) table)))"

definition most_common_behavior :: "string list \<Rightarrow> error + string" where
  "most_common_behavior behaviors =
     (case mode behaviors of [] \<Rightarrow> Inl IndexError | m # _ \<Rightarrow> Inr m)"

section \<open>The analysis run\<close>

text \<open>
  The three steps that \<^verbatim>\<open>main\<close> applies to the fetched frame, in their order, and
  \<^verbatim>\<open>main\<close>'s own guard around them: a fetch that returned \<^verbatim>\<open>None\<close> or an empty frame
  is reported as a failed fetch and nothing is computed. The window is the value of the
  sidebar's number input.
\<close>

definition analysis_steps :: "sample list \<Rightarrow> int \<Rightarrow> error + annotated list" where
  "analysis_steps data ma_window =
     (case calculate_moving_averages data ma_window of
        Inl e \<Rightarrow> Inl e
      | Inr d \<Rightarrow> Inr (calculate_factor_metrics (analyze_trends d)))"

definition main_analysis :: "sample list option \<Rightarrow> int \<Rightarrow> error + annotated list \<times> string" where
  "main_analysis fetched ma_window =
     (case fetched of
        None \<Rightarrow> Inl FetchFailed
      | Some data \<Rightarrow>
          if data = [] then Inl FetchFailed
          else (case analysis_steps data ma_window of
                  Inl e \<Rightarrow> Inl e
                | Inr d \<Rightarrow>
                    (case most_common_behavior (map Behavior d) of
                       Inl e \<Rightarrow> Inl e
                     | Inr m \<Rightarrow> Inr (d, m))))"

section \<open>Rounding to float64\<close>

text \<open>
  The sections above compute exactly. Where a statement depends on the last place of a
  result, the same functions are given below with every arithmetic operation rounded as
  \<^verbatim>\<open>float64\<close> rounds it: to the nearest value with a significand of 53 bits, ties to
  the even significand (\<open>rhe\<close> rounds to an integer that way), with the subnormal
  spacing \<open>2 ^ -1074\<close> below \<open>2 ^ -1022\<close> and an infinity from \<open>2 ^ 1024\<close> on.
\<close>

definition rhe :: "real \<Rightarrow> int" where
  "rhe r =
     (let f = \<lfloor>r\<rfloor>; d = r - of_int f
      in if d < 1 / 2 then f else if 1 / 2 < d then f + 1 else if even f then f else f + 1)"

definition round64 :: "real \<Rightarrow> float64" where
  "round64 x =
     (if x = 0 then Fin 0
      else
        let e = max \<lfloor>log 2 \<bar>x\<bar>\<rfloor> (- 1022);
            q = 2 powi (e - 52);
            y = of_int (rhe (x / q)) * q
        in if 2 ^ 1024 \<le> \<bar>y\<bar> then (if 0 < x then PInf else NInf) else Fin y)"

text \<open>
  The rounded operations: on two finite operands the exact result is rounded; as soon as
  an operand is special, or the divisor is zero, the result is the one given above.
\<close>

definition fadd64 :: "float64 \<Rightarrow> float64 \<Rightarrow> float64" where
  "fadd64 x y = (case (x, y) of (Fin a, Fin b) \<Rightarrow> round64 (a + b) | _ \<Rightarrow> fadd x y)"

definition fsub64 :: "float64 \<Rightarrow> float64 \<Rightarrow> float64" where
  "fsub64 x y = fadd64 x (fneg y)"

definition fdiv64 :: "float64 \<Rightarrow> float64 \<Rightarrow> float64" where
  "fdiv64 x y =
     (case (x, y) of
        (Fin a, Fin b) \<Rightarrow> if b = 0 then fdiv x y else round64 (a / b)
      | _ \<Rightarrow> fdiv x y)"

text \<open>\<^verbatim>\<open>classify_trend\<close>, its subtraction and its division rounded.\<close>

definition classify_trend_f64 :: "float64 \<Rightarrow> float64 \<Rightarrow> float64 \<Rightarrow> string" where
  "classify_trend_f64 current_value ma_value threshold =
     (let ratio = fdiv64 (fsub64 current_value ma_value) ma_value in
      if fgt ratio threshold then ''Increase''
      else if flt ratio (fneg threshold) then ''Decrease''
      else ''Stable'')"

definition trend_ratio_f64 :: "float64 \<Rightarrow> float64 \<Rightarrow> float64" where
  "trend_ratio_f64 current_value ma_value = fdiv64 (fsub64 current_value ma_value) ma_value"




text \<open>
  The rolling mean, as the library's window aggregation computes it for a fixed window
  with \<^verbatim>\<open>min_periods = 1\<close>. The state is the count of the window, its running sum, the
  count of its negative values, one compensation term for the additions and one for the
  removals (the running sum is a compensated sum), and the length of the run of equal
  values that ends at the last value added.
  \<^item> Adding \<^verbatim>\<open>val\<close>: \<^verbatim>\<open>y = val - compensation; t = sum_x + y;
    compensation = t - sum_x - y; sum_x = t\<close>; the run of equal values grows when
    \<^verbatim>\<open>val\<close> equals the previous value and restarts at one otherwise.
  \<^item> Removing \<^verbatim>\<open>val\<close>: the same with \<^verbatim>\<open>y = - val - compensation\<close>, on the second
    compensation term.
  \<^item> The mean: \<^verbatim>\<open>sum_x / nobs\<close>; the last value itself when the run of equal values
    covers the window; zero when no value of the window is negative and the quotient
    is, or all are and the quotient is positive.
  \<^item> At index \<open>i\<close> the window is \<open>max(0, i+1-w) \<dots> i\<close>. At index 0, and at every index
    when the window is one, the state is set up afresh and the window's value added;
    otherwise the value that left the window (index \<open>i - w\<close>, when there is one) is
    removed and the value at \<open>i\<close> is added.
\<close>

record roll_state =
  nobs :: nat
  sum_x :: float64
  neg_ct :: nat
  compensation_add :: float64
  compensation_remove :: float64
  num_consecutive_same_value :: nat
  prev_value :: real

definition start_state :: "real \<Rightarrow> roll_state" where
  "start_state first =
     \<lparr>nobs = 0, sum_x = Fin 0, neg_ct = 0, compensation_add = Fin 0,
      compensation_remove = Fin 0, num_consecutive_same_value = 0, prev_value = first\<rparr>"









definition exact64 :: "real \<Rightarrow> bool" where
  "exact64 x \<longleftrightarrow> round64 x = Fin x"






text \<open>
  A moving average at the boundary: the \<^verbatim>\<open>float64\<close> values nearest to 511.82 and to
  0.001, and the \<^verbatim>\<open>float64\<close> value of \<^verbatim>\<open>ma * (1 + threshold)\<close>.
\<close>

definition boundary_ma :: real where
  "boundary_ma = 9004032661252997 / 2 ^ 44"

definition boundary_threshold :: real where
  "boundary_threshold = 1152921504606847 / 2 ^ 60"

definition boundary_value :: real where
  "boundary_value = 4506518346957125 / 2 ^ 43"

section \<open>Example inputs\<close>

text \<open>The scenario of the specification: three samples, analysed with a window of two.\<close>

definition scenario :: "sample list" where
  "scenario =
     [\<lparr>Timestamp = 0, Price = 100, Volume = 1000\<rparr>,
      \<lparr>Timestamp = 1, Price = 101, Volume = 1200\<rparr>,
      \<lparr>Timestamp = 2, Price = 99, Volume = 900\<rparr>]"

text \<open>The same three samples as the factor engine receives them.\<close>

definition scenario_rows :: "trend_row list" where
  "scenario_rows =
     [\<lparr>Timestamp = 0, Price = 100, Volume = 1000, Price_MA = 100, Volume_MA = 1000,
       Price_Trend = ''Stable'', Volume_Trend = ''Stable'',
       Combination = ''Price Stable & Volume Stable'', Behavior = ''Stable Market''\<rparr>,
      \<lparr>Timestamp = 1, Price = 101, Volume = 1200, Price_MA = 201 / 2, Volume_MA = 1100,
       Price_Trend = ''Increase'', Volume_Trend = ''Increase'',
       Combination = ''Price Increase & Volume Increase'', Behavior = ''Buying Pressure''\<rparr>,
      \<lparr>Timestamp = 2, Price = 99, Volume = 900, Price_MA = 100, Volume_MA = 1050,
       Price_Trend = ''Decrease'', Volume_Trend = ''Decrease'',
       Combination = ''Price Decrease & Volume Decrease'', Behavior = ''Mild Selling''\<rparr>]"

text \<open>Rows that were traded at no volume twice, then at some.\<close>

definition idle_rows :: "trend_row list" where
  "idle_rows =
     [\<lparr>Timestamp = 0, Price = 1, Volume = 0, Price_MA = 1, Volume_MA = 0,
       Price_Trend = ''Stable'', Volume_Trend = ''Stable'',
       Combination = ''Price Stable & Volume Stable'', Behavior = ''Stable Market''\<rparr>,
      \<lparr>Timestamp = 1, Price = 1, Volume = 0, Price_MA = 1, Volume_MA = 0,
       Price_Trend = ''Stable'', Volume_Trend = ''Stable'',
       Combination = ''Price Stable & Volume Stable'', Behavior = ''Stable Market''\<rparr>,
      \<lparr>Timestamp = 2, Price = 1, Volume = 5, Price_MA = 1, Volume_MA = 5 / 2,
       Price_Trend = ''Stable'', Volume_Trend = ''Increase'',
       Combination = ''Price Stable & Volume Increase'', Behavior = ''Volume Spike''\<rparr>]"

text \<open>Samples traded at no volume twice, then at some.\<close>

definition idle_samples :: "sample list" where
  "idle_samples =
     [\<lparr>Timestamp = 0, Price = 1, Volume = 0\<rparr>,
      \<lparr>Timestamp = 1, Price = 1, Volume = 0\<rparr>,
      \<lparr>Timestamp = 2, Price = 1, Volume = 5\<rparr>]"

definition idle_ma :: "ma_row list" where
  "idle_ma =
     [\<lparr>Timestamp = 0, Price = 1, Volume = 0, Price_MA = 1, Volume_MA = 0\<rparr>,
      \<lparr>Timestamp = 1, Price = 1, Volume = 0, Price_MA = 1, Volume_MA = 0\<rparr>,
      \<lparr>Timestamp = 2, Price = 1, Volume = 5, Price_MA = 1, Volume_MA = 5 / 2\<rparr>]"

definition idle_records :: "annotated list" where
  "idle_records =
     [\<lparr>Timestamp = 0, Price = 1, Volume = 0, Price_MA = 1, Volume_MA = 0,
       Price_Trend = ''Stable'', Volume_Trend = ''Stable'',
       Combination = ''Price Stable & Volume Stable'', Behavior = ''Stable Market'',
       Factor = 0, Factor_Ratio = Fin 1\<rparr>,
      \<lparr>Timestamp = 1, Price = 1, Volume = 0, Price_MA = 1, Volume_MA = 0,
       Price_Trend = ''Stable'', Volume_Trend = ''Stable'',
       Combination = ''Price Stable & Volume Stable'', Behavior = ''Stable Market'',
       Factor = 0, Factor_Ratio = Fin 1\<rparr>,
      \<lparr>Timestamp = 2, Price = 1, Volume = 5, Price_MA = 1, Volume_MA = 5 / 2,
       Price_Trend = ''Stable'', Volume_Trend = ''Increase'',
       Combination = ''Price Stable & Volume Increase'', Behavior = ''Volume Spike'',
       Factor = 5, Factor_Ratio = PInf\<rparr>]"

text \<open>Samples out of order, the first with a negative price and a negative volume.\<close>

definition unruly_samples :: "sample list" where
  "unruly_samples =
     [\<lparr>Timestamp = 5, Price = - 2, Volume = - 3\<rparr>,
      \<lparr>Timestamp = 1, Price = 1, Volume = 5\<rparr>]"

definition unruly_ma :: "ma_row list" where
  "unruly_ma =
     [\<lparr>Timestamp = 5, Price = - 2, Volume = - 3, Price_MA = - 2, Volume_MA = - 3\<rparr>,
      \<lparr>Timestamp = 1, Price = 1, Volume = 5, Price_MA = - (1 / 2), Volume_MA = 1\<rparr>]"

definition unruly_rows :: "trend_row list" where
  "unruly_rows =
     [\<lparr>Timestamp = 5, Price = - 2, Volume = - 3, Price_MA = - 2, Volume_MA = - 3,
       Price_Trend = ''Stable'', Volume_Trend = ''Stable'',
       Combination = ''Price Stable & Volume Stable'', Behavior = ''Stable Market''\<rparr>,
      \<lparr>Timestamp = 1, Price = 1, Volume = 5, Price_MA = - (1 / 2), Volume_MA = 1,
       Price_Trend = ''Decrease'', Volume_Trend = ''Increase'',
       Combination = ''Price Decrease & Volume Increase'', Behavior = ''Selling Pressure''\<rparr>]"

definition unruly_records :: "annotated list" where
  "unruly_records =
     [\<lparr>Timestamp = 5, Price = - 2, Volume = - 3, Price_MA = - 2, Volume_MA = - 3,
       Price_Trend = ''Stable'', Volume_Trend = ''Stable'',
       Combination = ''Price Stable & Volume Stable'', Behavior = ''Stable Market'',
       Factor = 6, Factor_Ratio = Fin 1\<rparr>,
      \<lparr>Timestamp = 1, Price = 1, Volume = 5, Price_MA = - (1 / 2), Volume_MA = 1,
       Price_Trend = ''Decrease'', Volume_Trend = ''Increase'',
       Combination = ''Price Decrease & Volume Increase'', Behavior = ''Selling Pressure'',
       Factor = 5, Factor_Ratio = Fin (5 / 6)\<rparr>]"

text \<open>The first two samples of the scenario: two behaviors, once each.\<close>

definition tied_samples :: "sample list" where
  "tied_samples =
     [\<lparr>Timestamp = 0, Price = 100, Volume = 1000\<rparr>,
      \<lparr>Timestamp = 1, Price = 101, Volume = 1200\<rparr>]"

definition tied_ma :: "ma_row list" where
  "tied_ma =
     [\<lparr>Timestamp = 0, Price = 100, Volume = 1000, Price_MA = 100, Volume_MA = 1000\<rparr>,
      \<lparr>Timestamp = 1, Price = 101, Volume = 1200, Price_MA = 201 / 2, Volume_MA = 1100\<rparr>]"

definition tied_rows :: "trend_row list" where
  "tied_rows =
     [\<lparr>Timestamp = 0, Price = 100, Volume = 1000, Price_MA = 100, Volume_MA = 1000,
       Price_Trend = ''Stable'', Volume_Trend = ''Stable'',
       Combination = ''Price Stable & Volume Stable'', Behavior = ''Stable Market''\<rparr>,
      \<lparr>Timestamp = 1, Price = 101, Volume = 1200, Price_MA = 201 / 2, Volume_MA = 1100,
       Price_Trend = ''Increase'', Volume_Trend = ''Increase'',
       Combination = ''Price Increase & Volume Increase'', Behavior = ''Buying Pressure''\<rparr>]"

definition tied_records :: "annotated list" where
  "tied_records =
     [\<lparr>Timestamp = 0, Price = 100, Volume = 1000, Price_MA = 100, Volume_MA = 1000,
       Price_Trend = ''Stable'', Volume_Trend = ''Stable'',
       Combination = ''Price Stable & Volume Stable'', Behavior = ''Stable Market'',
       Factor = 100000, Factor_Ratio = Fin 1\<rparr>,
      \<lparr>Timestamp = 1, Price = 101, Volume = 1200, Price_MA = 201 / 2, Volume_MA = 1100,
       Price_Trend = ''Increase'', Volume_Trend = ''Increase'',
       Combination = ''Price Increase & Volume Increase'', Behavior = ''Buying Pressure'',
       Factor = 121200, Factor_Ratio = Fin (303 / 250)\<rparr>]"

section \<open>The sliding sum computes the trailing mean\<close>

lemma roll_mean_loop_eq:
  assumes "1 \<le> w"
  shows "rest = drop i xs \<Longrightarrow> i \<le> length xs \<Longrightarrow> cnt = min i w \<Longrightarrow>
         acc = (\<Sum>k = i - min i w..<i. xs ! k) \<Longrightarrow>
         roll_mean_loop w xs i cnt acc rest = map (trailing_mean w xs) [i..<length xs]"
proof (induction rest arbitrary: i cnt acc)
  case Nil
  then show ?case by simp
next
  case (Cons x rest)
  from Cons.prems have i_lt: "i < length xs"
    by (metis drop_eq_Nil2 list.distinct(1) not_le)
  have x_eq: "x = xs ! i" and rest_eq: "rest = drop (Suc i) xs"
    using Cons.prems(1) i_lt by (simp_all add: Cons_nth_drop_Suc[symmetric])
  define nobs2 where "nobs2 = (if w \<le> i then cnt - 1 else cnt) + 1"
  define sum2 where "sum2 = (if w \<le> i then acc - xs ! (i - w) else acc) + x"
  have nobs2: "nobs2 = min (Suc i) w"
    using assms Cons.prems(3) by (auto simp: nobs2_def min_def)
  have sum2: "sum2 = (\<Sum>k = Suc i - min (Suc i) w..<Suc i. xs ! k)"
  proof (cases "w \<le> i")
    case True
    then have "acc = (\<Sum>k = i - w..<i. xs ! k)"
      using Cons.prems(4) by (simp add: min_def)
    also have "\<dots> = xs ! (i - w) + (\<Sum>k = Suc (i - w)..<i. xs ! k)"
      using True assms by (intro sum.atLeast_Suc_lessThan) linarith
    finally have "sum2 = (\<Sum>k = Suc (i - w)..<i. xs ! k) + xs ! i"
      using True by (simp add: sum2_def x_eq)
    moreover have "Suc i - min (Suc i) w = Suc (i - w)"
      using True by (simp add: min_def Suc_diff_le)
    moreover have "Suc (i - w) \<le> i" using True assms by linarith
    ultimately show ?thesis by (simp only: sum.op_ivl_Suc) simp
  next
    case False
    then have "acc = (\<Sum>k = 0..<i. xs ! k)"
      using Cons.prems(4) by (simp add: min_def)
    with False show ?thesis by (simp add: sum2_def x_eq min_def)
  qed
  have head: "sum2 / real nobs2 = trailing_mean w xs i"
  proof -
    have lo: "nat (max 0 (int i - int w + 1)) = Suc i - min (Suc i) w"
      by (auto simp: min_def max_def)
    have cnt: "i - (Suc i - min (Suc i) w) + 1 = min (Suc i) w"
      using assms by (auto simp: min_def)
    have "{Suc i - min (Suc i) w..i} = {Suc i - min (Suc i) w..<Suc i}"
      by (simp add: atLeastLessThanSuc_atLeastAtMost)
    then show ?thesis
      unfolding trailing_mean_def Let_def lo cnt nobs2 sum2 by simp
  qed
  have tail: "roll_mean_loop w xs (Suc i) nobs2 sum2 rest
              = map (trailing_mean w xs) [Suc i..<length xs]"
    using Cons.IH[OF rest_eq _ nobs2 sum2] i_lt by simp
  have "roll_mean_loop w xs i cnt acc (x # rest)
        = (sum2 / real nobs2) # roll_mean_loop w xs (Suc i) nobs2 sum2 rest"
    by (simp add: Let_def nobs2_def sum2_def)
  then show ?case
    using head tail i_lt by (simp add: upt_conv_Cons)
qed

lemma roll_mean_eq:
  "1 \<le> w \<Longrightarrow> roll_mean w xs = map (trailing_mean w xs) [0..<length xs]"
  unfolding roll_mean_def by (rule roll_mean_loop_eq) simp_all

lemma rolling_mean_ok:
  "1 \<le> window \<Longrightarrow>
   rolling_mean window xs = Inr (map (trailing_mean (nat window) xs) [0..<length xs])"
  by (simp add: rolling_mean_def roll_mean_eq)

lemma calculate_moving_averages_ok:
  assumes "1 \<le> window"
  shows "calculate_moving_averages data window =
         Inr (map (\<lambda>i. \<lparr>Timestamp = Timestamp (data ! i), Price = Price (data ! i),
                         Volume = Volume (data ! i),
                         Price_MA = trailing_mean (nat window) (map Price data) i,
                         Volume_MA = trailing_mean (nat window) (map Volume data) i\<rparr>)
                [0..<length data])"
proof -
  let ?pm = "map (trailing_mean (nat window) (map Price data)) [0..<length data]"
  let ?vm = "map (trailing_mean (nat window) (map Volume data)) [0..<length data]"
  have p: "rolling_mean window (map Price data) = Inr ?pm"
    and v: "rolling_mean window (map Volume data) = Inr ?vm"
    using rolling_mean_ok[OF assms, of "map Price data"]
      rolling_mean_ok[OF assms, of "map Volume data"] by simp_all
  show ?thesis
    unfolding calculate_moving_averages_def p v sum.case
    by (rule arg_cong[where f = Inr], rule nth_equalityI) simp_all
qed

section \<open>Trend classification\<close>

lemma classify_trend_zero_ma:
  "classify_trend (Fin v) (Fin 0) (Fin t) =
     (if v = 0 then ''Stable'' else if 0 < v then ''Increase'' else ''Decrease'')"
  by (simp add: classify_trend_def fsub_def flt_def Let_def)

section \<open>Behavior mapping\<close>

text \<open>
  C4. For every pair of trend labels out of Increase, Decrease and Stable, the behavior
  mapper returns the label of the nine-entry table, and never \<^verbatim>\<open>"Unknown"\<close>.
\<close>

theorem behavior_table_total:
  "get_market_behavior ''Increase'' ''Increase'' = ''Buying Pressure'' \<and>
   get_market_behavior ''Increase'' ''Decrease'' = ''Mild Buying'' \<and>
   get_market_behavior ''Increase'' ''Stable'' = ''Cautious Buying'' \<and>
   get_market_behavior ''Decrease'' ''Increase'' = ''Selling Pressure'' \<and>
   get_market_behavior ''Decrease'' ''Decrease'' = ''Mild Selling'' \<and>
   get_market_behavior ''Decrease'' ''Stable'' = ''Cautious Selling'' \<and>
   get_market_behavior ''Stable'' ''Increase'' = ''Volume Spike'' \<and>
   get_market_behavior ''Stable'' ''Decrease'' = ''Low Activity'' \<and>
   get_market_behavior ''Stable'' ''Stable'' = ''Stable Market'' \<and>
   (\<forall>pt \<in> set trend_labels. \<forall>vt \<in> set trend_labels.
      get_market_behavior pt vt \<noteq> ''Unknown'')"
  by (simp add: get_market_behavior_def behavior_map_def trend_labels_def)

theorem behavior_table_total_witness:
  "''Stable'' \<in> set trend_labels \<and> ''Increase'' \<in> set trend_labels \<and>
   get_market_behavior ''Stable'' ''Increase'' \<noteq> ''Unknown''"
proof -
  have "''Stable'' \<in> set trend_labels" and "''Increase'' \<in> set trend_labels"
    by (simp_all add: trend_labels_def)
  with behavior_table_total show ?thesis by blast
qed

section \<open>Factor and factor ratio\<close>

lemma length_shift: "length (shift xs) = length xs"
  by (simp add: shift_def)

lemma shift_nth: "i < length xs \<Longrightarrow> shift xs ! i = (if i = 0 then NaN else xs ! (i - 1))"
  by (cases i) (simp_all add: shift_def)

lemma length_pct_change: "length (pct_change xs) = length xs"
  by (simp add: pct_change_def length_shift)

lemma pct_change_nth:
  "i < length xs \<Longrightarrow>
   pct_change xs ! i = fsub (fdiv (xs ! i) (if i = 0 then NaN else xs ! (i - 1))) (Fin 1)"
  by (simp add: pct_change_def length_shift shift_nth)

lemma length_factor_ratio_column: "length (factor_ratio_column f) = length f"
  by (simp add: factor_ratio_column_def fillna_def length_pct_change)

lemma factor_ratio_column_first:
  "0 < length f \<Longrightarrow> factor_ratio_column f ! 0 = Fin 1"
  by (simp add: factor_ratio_column_def fillna_def length_pct_change pct_change_nth fsub_def)

lemma factor_ratio_column_nth:
  assumes "0 < i" "i < length f"
  shows "factor_ratio_column f ! i =
         (if f ! (i - 1) = 0
          then (if f ! i = 0 then Fin 1 else if 0 < f ! i then PInf else NInf)
          else Fin (f ! i / f ! (i - 1)))"
  using assms
  by (simp add: factor_ratio_column_def fillna_def length_pct_change pct_change_nth fsub_def)

lemma factor_ratio_column_no_nan: "NaN \<notin> set (factor_ratio_column f)"
  by (auto simp: factor_ratio_column_def fillna_def)

lemma length_calculate_factor_metrics:
  "length (calculate_factor_metrics data) = length data"
  by (simp add: calculate_factor_metrics_def Let_def length_factor_ratio_column)

lemma calculate_factor_metrics_nth:
  assumes "i < length data"
  shows "calculate_factor_metrics data ! i =
         \<lparr>Timestamp = Timestamp (data ! i), Price = Price (data ! i), Volume = Volume (data ! i),
          Price_MA = Price_MA (data ! i), Volume_MA = Volume_MA (data ! i),
          Price_Trend = Price_Trend (data ! i), Volume_Trend = Volume_Trend (data ! i),
          Combination = Combination (data ! i), Behavior = Behavior (data ! i),
          Factor = Price (data ! i) * Volume (data ! i),
          Factor_Ratio = factor_ratio_column (map (\<lambda>r. Price r * Volume r) data) ! i\<rparr>"
  using assms
  by (simp add: calculate_factor_metrics_def Let_def length_factor_ratio_column)

lemma factor_ratio_column_of_frame:
  "map Factor_Ratio (calculate_factor_metrics data)
   = factor_ratio_column (map (\<lambda>r. Price r * Volume r) data)"
  by (rule nth_equalityI)
    (simp_all add: length_calculate_factor_metrics length_factor_ratio_column
      calculate_factor_metrics_nth)

section \<open>The frame through the three steps\<close>

lemma length_analyze_trends: "length (analyze_trends data) = length data"
  by (simp add: analyze_trends_def Let_def)

lemma analyze_trends_nth:
  assumes "i < length data"
  shows "analyze_trends data ! i =
         (case trend_entry (data ! i) of (pt, vt, c, b) \<Rightarrow>
          \<lparr>Timestamp = Timestamp (data ! i), Price = Price (data ! i), Volume = Volume (data ! i),
           Price_MA = Price_MA (data ! i), Volume_MA = Volume_MA (data ! i),
           Price_Trend = pt, Volume_Trend = vt, Combination = c, Behavior = b\<rparr>)"
  using assms by (simp add: analyze_trends_def Let_def)

lemma analyze_trends_sample:
  assumes "i < length data"
  shows "Timestamp (analyze_trends data ! i) = Timestamp (data ! i)"
    and "Price (analyze_trends data ! i) = Price (data ! i)"
    and "Volume (analyze_trends data ! i) = Volume (data ! i)"
  using assms by (simp_all add: analyze_trends_nth split: prod.splits)

lemma calculate_moving_averages_sample:
  assumes "calculate_moving_averages data window = Inr d"
  shows "length d = length data"
    and "i < length data \<Longrightarrow> Timestamp (d ! i) = Timestamp (data ! i)"
    and "i < length data \<Longrightarrow> Price (d ! i) = Price (data ! i)"
    and "i < length data \<Longrightarrow> Volume (d ! i) = Volume (data ! i)"
proof -
  have w: "1 \<le> window"
    using assms
    by (cases "window < 1") (simp_all add: calculate_moving_averages_def rolling_mean_def)
  from assms calculate_moving_averages_ok[OF w, of data]
  have d: "d = map (\<lambda>i. \<lparr>Timestamp = Timestamp (data ! i), Price = Price (data ! i),
                         Volume = Volume (data ! i),
                         Price_MA = trailing_mean (nat window) (map Price data) i,
                         Volume_MA = trailing_mean (nat window) (map Volume data) i\<rparr>)
                [0..<length data]"
    by simp
  show "length d = length data"
    and "i < length data \<Longrightarrow> Timestamp (d ! i) = Timestamp (data ! i)"
    and "i < length data \<Longrightarrow> Price (d ! i) = Price (data ! i)"
    and "i < length data \<Longrightarrow> Volume (d ! i) = Volume (data ! i)"
    by (simp_all add: d)
qed

lemma analysis_steps_ok:
  assumes "1 \<le> window"
  shows "\<exists>d. calculate_moving_averages samples window = Inr d \<and>
             analysis_steps samples window = Inr (calculate_factor_metrics (analyze_trends d))"
  using calculate_moving_averages_ok[OF assms, of samples]
  by (simp add: analysis_steps_def)

lemma analysis_steps_sample:
  assumes "1 \<le> window"
  shows "\<exists>recs. analysis_steps samples window = Inr recs \<and> length recs = length samples \<and>
           (\<forall>i<length samples.
              Timestamp (recs ! i) = Timestamp (samples ! i) \<and>
              Price (recs ! i) = Price (samples ! i) \<and>
              Volume (recs ! i) = Volume (samples ! i) \<and>
              Factor (recs ! i) = Price (samples ! i) * Volume (samples ! i)) \<and>
           (recs \<noteq> [] \<longrightarrow> Factor_Ratio (recs ! 0) = Fin 1)"
proof -
  from analysis_steps_ok[OF assms, of samples] obtain d
    where d: "calculate_moving_averages samples window = Inr d"
      and r: "analysis_steps samples window = Inr (calculate_factor_metrics (analyze_trends d))"
    by blast
  let ?recs = "calculate_factor_metrics (analyze_trends d)"
  have len: "length d = length samples"
    by (rule calculate_moving_averages_sample(1)[OF d])
  have len': "length ?recs = length samples"
    by (simp add: length_calculate_factor_metrics length_analyze_trends len)
  have fields: "Timestamp (?recs ! i) = Timestamp (samples ! i) \<and>
              Price (?recs ! i) = Price (samples ! i) \<and>
              Volume (?recs ! i) = Volume (samples ! i) \<and>
              Factor (?recs ! i) = Price (samples ! i) * Volume (samples ! i)"
    if "i < length samples" for i
  proof -
    have i: "i < length d" "i < length (analyze_trends d)"
      using that len by (simp_all add: length_analyze_trends)
    show ?thesis
      using calculate_moving_averages_sample(2-4)[OF d that]
      by (simp add: calculate_factor_metrics_nth[OF i(2)] analyze_trends_sample[OF i(1)])
  qed
  have first: "Factor_Ratio (?recs ! 0) = Fin 1" if "?recs \<noteq> []"
  proof -
    from that have "0 < length (analyze_trends d)"
      by (simp add: length_calculate_factor_metrics[symmetric])
    then show ?thesis
      by (simp add: calculate_factor_metrics_nth factor_ratio_column_first)
  qed
  from r len' fields first show ?thesis by blast
qed

text \<open>
  C9. For every input sample sequence, the annotated records have the length and the
  order of the input: nothing is dropped, duplicated or reordered, and record \<open>i\<close>
  carries the timestamp of sample \<open>i\<close>.
\<close>

theorem records_follow_samples:
  assumes "1 \<le> window"
  shows "(\<exists>d. calculate_moving_averages samples window = Inr d \<and>
            map Timestamp d = map Timestamp samples \<and>
            map Timestamp (analyze_trends d) = map Timestamp d) \<and>
         (\<exists>recs. analysis_steps samples window = Inr recs \<and> length recs = length samples \<and>
            (\<forall>i<length samples.
               Timestamp (recs ! i) = Timestamp (samples ! i) \<and>
               Price (recs ! i) = Price (samples ! i) \<and>
               Volume (recs ! i) = Volume (samples ! i)))"
proof -
  from analysis_steps_ok[OF assms, of samples] obtain d
    where d: "calculate_moving_averages samples window = Inr d"
    by blast
  have "map Timestamp d = map Timestamp samples"
    by (rule nth_equalityI) (simp_all add: calculate_moving_averages_sample[OF d])
  moreover have "map Timestamp (analyze_trends d) = map Timestamp d"
    by (rule nth_equalityI) (simp_all add: length_analyze_trends analyze_trends_sample)
  ultimately have first: "\<exists>d. calculate_moving_averages samples window = Inr d \<and>
            map Timestamp d = map Timestamp samples \<and>
            map Timestamp (analyze_trends d) = map Timestamp d"
    using d by blast
  from analysis_steps_sample[OF assms, of samples] first show ?thesis
    by blast
qed

theorem records_follow_samples_witness:
  "(1::int) \<le> 2 \<and>
   (\<exists>recs. analysis_steps scenario 2 = Inr recs \<and> length recs = 3 \<and>
      Timestamp (recs ! 0) = 0 \<and> Timestamp (recs ! 1) = 1 \<and> Timestamp (recs ! 2) = 2)"
proof -
  have h: "(1::int) \<le> 2" by simp
  from records_follow_samples[OF h, of scenario] obtain recs
    where r: "analysis_steps scenario 2 = Inr recs" "length recs = length scenario"
      and t: "\<forall>i<length scenario. Timestamp (recs ! i) = Timestamp (scenario ! i)"
    by blast
  have "length scenario = 3" by (simp add: scenario_def)
  moreover from t have "Timestamp (recs ! 0) = 0 \<and> Timestamp (recs ! 1) = 1 \<and>
      Timestamp (recs ! 2) = 2"
    by (simp add: scenario_def)
  ultimately show ?thesis using r h by auto
qed

text \<open>
  C6. For every non-empty sample sequence, the factor ratio of the first annotated record
  is exactly one, whatever the price and the volume of the first sample.
\<close>

theorem first_factor_ratio_is_one:
  assumes "samples \<noteq> []" and "1 \<le> window"
  shows "(\<exists>recs. analysis_steps samples window = Inr recs \<and> recs \<noteq> [] \<and>
            Factor_Ratio (recs ! 0) = Fin 1 \<and> Factor_Ratio (hd recs) = Fin 1) \<and>
         (\<forall>data. data \<noteq> [] \<longrightarrow> Factor_Ratio (calculate_factor_metrics data ! 0) = Fin 1)"
proof -
  from analysis_steps_sample[OF assms(2), of samples] obtain recs
    where r: "analysis_steps samples window = Inr recs" "length recs = length samples"
      and f: "recs \<noteq> [] \<longrightarrow> Factor_Ratio (recs ! 0) = Fin 1"
    by blast
  from r(2) assms(1) have ne: "recs \<noteq> []" by auto
  with f have "Factor_Ratio (recs ! 0) = Fin 1" by simp
  moreover from ne have "hd recs = recs ! 0" by (simp add: hd_conv_nth)
  ultimately have first: "\<exists>recs. analysis_steps samples window = Inr recs \<and> recs \<noteq> [] \<and>
            Factor_Ratio (recs ! 0) = Fin 1 \<and> Factor_Ratio (hd recs) = Fin 1"
    using r(1) ne by auto
  have "Factor_Ratio (calculate_factor_metrics data ! 0) = Fin 1" if "data \<noteq> []" for data
    using that by (simp add: calculate_factor_metrics_nth factor_ratio_column_first)
  with first show ?thesis by blast
qed

theorem first_factor_ratio_is_one_witness:
  "scenario \<noteq> [] \<and> (1::int) \<le> 2 \<and>
   (\<exists>recs. analysis_steps scenario 2 = Inr recs \<and> Factor_Ratio (recs ! 0) = Fin 1)"
proof -
  have h: "scenario \<noteq> []" "(1::int) \<le> 2"
    by (simp_all add: scenario_def)
  from first_factor_ratio_is_one[OF h] h show ?thesis by blast
qed

text \<open>
  C10. At every index \<open>i > 0\<close> where the factor and the factor before it are both zero,
  the percentage change is NaN (zero divided by zero) and the fill step, which replaces
  every NaN of the column and not only the first record's, stores the ratio one.
\<close>

theorem both_zero_factor_ratio_is_one:
  assumes "0 < i" and "i < length data"
    and "Price (data ! (i - 1)) * Volume (data ! (i - 1)) = 0"
    and "Price (data ! i) * Volume (data ! i) = 0"
  shows "Factor (calculate_factor_metrics data ! (i - 1)) = 0 \<and>
         Factor (calculate_factor_metrics data ! i) = 0 \<and>
         pct_change (map Fin (map (\<lambda>r. Price r * Volume r) data)) ! i = NaN \<and>
         fadd NaN (Fin 1) = NaN \<and>
         Factor_Ratio (calculate_factor_metrics data ! i) = Fin 1 \<and>
         NaN \<notin> set (map Factor_Ratio (calculate_factor_metrics data))"
proof -
  from assms(1,2) have p: "i - 1 < length data" by simp
  have "Factor (calculate_factor_metrics data ! (i - 1)) = 0"
    using assms(3) by (simp only: calculate_factor_metrics_nth[OF p]) simp
  moreover have "Factor (calculate_factor_metrics data ! i) = 0"
    using assms(4) by (simp only: calculate_factor_metrics_nth[OF assms(2)]) simp
  moreover have "pct_change (map Fin (map (\<lambda>r. Price r * Volume r) data)) ! i = NaN"
    using assms by (simp add: pct_change_nth fsub_def)
  moreover have "Factor_Ratio (calculate_factor_metrics data ! i) = Fin 1"
    using assms by (simp add: calculate_factor_metrics_nth factor_ratio_column_nth)
  moreover have "NaN \<notin> set (map Factor_Ratio (calculate_factor_metrics data))"
    unfolding factor_ratio_column_of_frame by (rule factor_ratio_column_no_nan)
  ultimately show ?thesis by simp
qed

theorem both_zero_factor_ratio_is_one_witness:
  "Factor (calculate_factor_metrics idle_rows ! 0) = 0 \<and>
   Factor (calculate_factor_metrics idle_rows ! 1) = 0 \<and>
   Factor_Ratio (calculate_factor_metrics idle_rows ! 1) = Fin 1"
proof -
  have h: "(0::nat) < 1" "1 < length idle_rows"
    "Price (idle_rows ! (1 - 1)) * Volume (idle_rows ! (1 - 1)) = 0"
    "Price (idle_rows ! 1) * Volume (idle_rows ! 1) = 0"
    by (simp_all add: idle_rows_def)
  from both_zero_factor_ratio_is_one[OF h] show ?thesis
    by (simp only: diff_self_eq_0)
qed

section \<open>Counting the behaviors\<close>

lemma count_value_map_of:
  "map_of (count_value t x) y =
     (if y = x then Some (case map_of t x of None \<Rightarrow> 1 | Some c \<Rightarrow> c + 1) else map_of t y)"
  by (induction t x rule: count_value.induct) auto

lemma count_value_keys: "fst ` set (count_value t x) = insert x (fst ` set t)"
  by (induction t x rule: count_value.induct) auto

lemma count_value_distinct:
  "distinct (map fst t) \<Longrightarrow> distinct (map fst (count_value t x))"
  by (induction t x rule: count_value.induct) (auto simp: count_value_keys)

lemma key_iff: "y \<in> fst ` set t \<longleftrightarrow> map_of t y \<noteq> None"
  by (simp add: map_of_eq_None_iff)

lemma foldl_count_value_map_of:
  "map_of (foldl count_value t xs) y =
     (if y \<in> set xs \<or> y \<in> fst ` set t
      then Some ((case map_of t y of None \<Rightarrow> 0 | Some c \<Rightarrow> c) + count_list xs y)
      else None)"
proof (induction xs arbitrary: t)
  case Nil
  show ?case
    by (cases "map_of t y") (auto simp: key_iff)
next
  case (Cons x xs)
  show ?case
    by (cases "map_of t y"; cases "map_of t x")
       (auto simp: Cons.IH count_value_map_of count_value_keys key_iff)
qed

lemma foldl_count_value_distinct:
  "distinct (map fst t) \<Longrightarrow> distinct (map fst (foldl count_value t xs))"
  by (induction xs arbitrary: t) (simp_all add: count_value_distinct)

lemma value_count_iff:
  "(k, c) \<in> set (value_count xs) \<longleftrightarrow> k \<in> set xs \<and> c = count_list xs k"
proof -
  have d: "distinct (map fst (value_count xs))"
    unfolding value_count_def by (rule foldl_count_value_distinct) simp
  have "(k, c) \<in> set (value_count xs) \<longleftrightarrow> map_of (value_count xs) k = Some c"
    using d by simp
  also have "\<dots> \<longleftrightarrow> k \<in> set xs \<and> c = count_list xs k"
    unfolding value_count_def by (auto simp: foldl_count_value_map_of)
  finally show ?thesis .
qed

lemma foldl_max_bounds:
  fixes a :: nat
  shows "a \<le> foldl max a cs \<and> (\<forall>c \<in> set cs. c \<le> foldl max a cs) \<and>
         (foldl max a cs = a \<or> foldl max a cs \<in> set cs)"
proof (induction cs arbitrary: a)
  case Nil
  show ?case by simp
next
  case (Cons c cs)
  from Cons.IH[of "max a c"] show ?case
    by (auto simp: max_def split: if_splits)
qed

lemma max_count_is_greatest:
  defines "M \<equiv> \<lambda>xs :: 'a list. foldl max 0 (map snd (value_count xs))"
  shows "\<forall>k. count_list xs k \<le> M xs"
    and "xs \<noteq> [] \<Longrightarrow> \<exists>k \<in> set xs. count_list xs k = M xs"
proof -
  let ?cs = "map snd (value_count xs)"
  have cs: "set ?cs = count_list xs ` set xs"
    by (auto simp: value_count_iff image_iff) (metis value_count_iff snd_conv)
  note b = foldl_max_bounds[of 0 ?cs]
  show "\<forall>k. count_list xs k \<le> M xs"
  proof
    fix k
    show "count_list xs k \<le> M xs"
    proof (cases "k \<in> set xs")
      case True
      then have "count_list xs k \<in> set ?cs" unfolding cs by blast
      with b show ?thesis unfolding M_def by blast
    next
      case False
      then show ?thesis by (simp add: count_list_0_iff)
    qed
  qed
  show "\<exists>k \<in> set xs. count_list xs k = M xs" if "xs \<noteq> []"
  proof -
    from that obtain x where x: "x \<in> set xs" by (cases xs) auto
    then have pos: "0 < count_list xs x"
      using count_list_0_iff[of xs x] by auto
    have "count_list xs x \<in> set ?cs" using x unfolding cs by blast
    with b pos have "foldl max 0 ?cs \<noteq> 0" by auto
    with b have "foldl max 0 ?cs \<in> set ?cs" by blast
    then show ?thesis unfolding cs M_def by auto
  qed
qed

lemma set_mode:
  "set (mode xs) = {k \<in> set xs. count_list xs k = foldl max 0 (map snd (value_count xs))}"
  unfolding mode_def Let_def
  by (auto simp: value_count_iff image_iff)

lemma sorted_mode: "sorted (mode xs)"
  by (simp add: mode_def Let_def)

lemma most_common_behavior_ok:
  assumes "behaviors \<noteq> []"
  shows "\<exists>m. most_common_behavior behaviors = Inr m \<and> m \<in> set behaviors \<and>
           (\<forall>y. count_list behaviors y \<le> count_list behaviors m) \<and>
           (\<forall>y. count_list behaviors y = count_list behaviors m \<longrightarrow> m \<le> y)"
proof -
  let ?M = "foldl max 0 (map snd (value_count behaviors))"
  from max_count_is_greatest(2)[OF assms] obtain k
    where k: "k \<in> set behaviors" "count_list behaviors k = ?M" by blast
  then have "k \<in> set (mode behaviors)" by (simp add: set_mode)
  then obtain m rest where mr: "mode behaviors = m # rest"
    by (cases "mode behaviors") auto
  then have m: "m \<in> set behaviors" "count_list behaviors m = ?M"
    using set_mode[of behaviors] by auto
  have least: "m \<le> y" if "y \<in> set (mode behaviors)" for y
    using sorted_mode[of behaviors] that unfolding mr by auto
  have pos: "0 < count_list behaviors m"
    using m(1) count_list_0_iff[of behaviors m] by auto
  have "most_common_behavior behaviors = Inr m"
    by (simp add: most_common_behavior_def mr)
  moreover have "\<forall>y. count_list behaviors y \<le> count_list behaviors m"
    using max_count_is_greatest(1)[of behaviors] m(2) by simp
  moreover have "\<forall>y. count_list behaviors y = count_list behaviors m \<longrightarrow> m \<le> y"
  proof (intro allI impI)
    fix y assume e: "count_list behaviors y = count_list behaviors m"
    with pos have "y \<in> set behaviors"
      by (metis count_list_0_iff less_numeral_extra(3))
    with e m(2) have "y \<in> set (mode behaviors)" by (simp add: set_mode)
    then show "m \<le> y" by (rule least)
  qed
  ultimately show ?thesis using m(1) by blast
qed

section \<open>Three runs of the analysis\<close>

lemma idle_moving_averages: "calculate_moving_averages idle_samples 2 = Inr idle_ma"
  by (simp add: calculate_moving_averages_def rolling_mean_def roll_mean_def
      idle_samples_def idle_ma_def Let_def)

lemma idle_trends: "analyze_trends idle_ma = idle_rows"
  by (simp add: analyze_trends_def trend_entry_def classify_trend_def default_threshold_def
      fsub_def flt_def get_market_behavior_def behavior_map_def idle_ma_def idle_rows_def
      Let_def)

lemma idle_factor_metrics: "calculate_factor_metrics idle_rows = idle_records"
  by (simp add: calculate_factor_metrics_def factor_ratio_column_def fillna_def
      pct_change_def shift_def fsub_def idle_rows_def idle_records_def Let_def)

lemma idle_behaviors: "map Behavior idle_records = [''Stable Market'', ''Stable Market'', ''Volume Spike'']"
  by (simp add: idle_records_def)

lemma idle_dominant: "most_common_behavior [''Stable Market'', ''Stable Market'', ''Volume Spike''] = Inr ''Stable Market''"
  by (simp add: most_common_behavior_def mode_def value_count_def Let_def)

lemma idle_run: "main_analysis (Some idle_samples) 2 = Inr (idle_records, ''Stable Market'')"
proof -
  have "idle_samples \<noteq> []"
    by (simp add: idle_samples_def)
  then show ?thesis
    by (simp add: main_analysis_def analysis_steps_def idle_moving_averages idle_trends
        idle_factor_metrics idle_behaviors idle_dominant)
qed

lemma unruly_moving_averages: "calculate_moving_averages unruly_samples 2 = Inr unruly_ma"
  by (simp add: calculate_moving_averages_def rolling_mean_def roll_mean_def
      unruly_samples_def unruly_ma_def Let_def)

lemma unruly_trends: "analyze_trends unruly_ma = unruly_rows"
  by (simp add: analyze_trends_def trend_entry_def classify_trend_def default_threshold_def
      fsub_def flt_def get_market_behavior_def behavior_map_def unruly_ma_def unruly_rows_def
      Let_def)

lemma unruly_factor_metrics: "calculate_factor_metrics unruly_rows = unruly_records"
  by (simp add: calculate_factor_metrics_def factor_ratio_column_def fillna_def
      pct_change_def shift_def fsub_def unruly_rows_def unruly_records_def Let_def)

lemma unruly_behaviors: "map Behavior unruly_records = [''Stable Market'', ''Selling Pressure'']"
  by (simp add: unruly_records_def)

lemma unruly_dominant: "most_common_behavior [''Stable Market'', ''Selling Pressure''] = Inr ''Selling Pressure''"
  by (simp add: most_common_behavior_def mode_def value_count_def Let_def)

lemma unruly_run: "main_analysis (Some unruly_samples) 2 = Inr (unruly_records, ''Selling Pressure'')"
proof -
  have "unruly_samples \<noteq> []"
    by (simp add: unruly_samples_def)
  then show ?thesis
    by (simp add: main_analysis_def analysis_steps_def unruly_moving_averages unruly_trends
        unruly_factor_metrics unruly_behaviors unruly_dominant)
qed

lemma tied_moving_averages: "calculate_moving_averages tied_samples 2 = Inr tied_ma"
  by (simp add: calculate_moving_averages_def rolling_mean_def roll_mean_def
      tied_samples_def tied_ma_def Let_def)

lemma tied_trends: "analyze_trends tied_ma = tied_rows"
  by (simp add: analyze_trends_def trend_entry_def classify_trend_def default_threshold_def
      fsub_def flt_def get_market_behavior_def behavior_map_def tied_ma_def tied_rows_def
      Let_def)

lemma tied_factor_metrics: "calculate_factor_metrics tied_rows = tied_records"
  by (simp add: calculate_factor_metrics_def factor_ratio_column_def fillna_def
      pct_change_def shift_def fsub_def tied_rows_def tied_records_def Let_def)

lemma tied_behaviors: "map Behavior tied_records = [''Stable Market'', ''Buying Pressure'']"
  by (simp add: tied_records_def)

lemma tied_dominant: "most_common_behavior [''Stable Market'', ''Buying Pressure''] = Inr ''Buying Pressure''"
  by (simp add: most_common_behavior_def mode_def value_count_def Let_def)

lemma tied_run: "main_analysis (Some tied_samples) 2 = Inr (tied_records, ''Buying Pressure'')"
proof -
  have "tied_samples \<noteq> []"
    by (simp add: tied_samples_def)
  then show ?thesis
    by (simp add: main_analysis_def analysis_steps_def tied_moving_averages tied_trends
        tied_factor_metrics tied_behaviors tied_dominant)
qed

section \<open>Zero denominators\<close>

text \<open>
  C1, as the claim states it, fails: the run on \<open>idle_samples\<close> raises nothing. Its first
  two volumes and volume averages are zero, the ratio \<open>0 / 0\<close> is NaN and the label
  drawn from it is Stable; the third factor is divided by a zero factor and the infinite
  quotient is stored in the factor ratio column.
\<close>

theorem zero_denominator_counterexample:
  "main_analysis (Some idle_samples) 2 = Inr (idle_records, ''Stable Market'') \<and>
   map Volume idle_records = [0, 0, 5] \<and>
   map Volume_MA idle_records = [0, 0, 5 / 2] \<and>
   trend_ratio (Fin 0) (Fin 0) = NaN \<and>
   map Volume_Trend idle_records = [''Stable'', ''Stable'', ''Increase''] \<and>
   map Factor idle_records = [0, 0, 5] \<and>
   map Factor_Ratio idle_records = [Fin 1, Fin 1, PInf]"
  by (simp add: idle_run) (simp add: idle_records_def trend_ratio_def fsub_def)

text \<open>
  C1, amended. A zero denominator raises no error. With a moving average of zero the
  classifier returns Stable when the value is zero too (the ratio is NaN), Increase when
  it is positive (the ratio is \<open>+\<infinity>\<close>) and Decrease when it is negative (\<open>-\<infinity>\<close>).
  With a preceding factor of zero (of a non-negative price and volume) the factor ratio
  is one when the factor is zero too, \<open>+\<infinity>\<close> when it is positive and \<open>-\<infinity>\<close> when it is
  negative, and that value is stored in the column. The three steps return their records
  for every window of at least one.
\<close>

theorem zero_denominator_raises_nothing:
  "trend_ratio (Fin v) (Fin 0) = (if v = 0 then NaN else if 0 < v then PInf else NInf) \<and>
   classify_trend (Fin v) (Fin 0) (Fin t)
     = (if v = 0 then ''Stable'' else if 0 < v then ''Increase'' else ''Decrease'') \<and>
   (0 < i \<and> i < length data \<and> Price (data ! (i - 1)) * Volume (data ! (i - 1)) = 0 \<and>
    0 \<le> Price (data ! (i - 1)) \<and> 0 \<le> Volume (data ! (i - 1)) \<longrightarrow>
      Factor_Ratio (calculate_factor_metrics data ! i)
        = (if Price (data ! i) * Volume (data ! i) = 0 then Fin 1
           else if 0 < Price (data ! i) * Volume (data ! i) then PInf else NInf)) \<and>
   (1 \<le> window \<longrightarrow> (\<exists>recs. analysis_steps samples window = Inr recs))"
proof -
  have "trend_ratio (Fin v) (Fin 0) = (if v = 0 then NaN else if 0 < v then PInf else NInf)"
    by (simp add: trend_ratio_def fsub_def)
  moreover have "Factor_Ratio (calculate_factor_metrics data ! i)
        = (if Price (data ! i) * Volume (data ! i) = 0 then Fin 1
           else if 0 < Price (data ! i) * Volume (data ! i) then PInf else NInf)"
    if "0 < i" "i < length data" "Price (data ! (i - 1)) * Volume (data ! (i - 1)) = 0"
    using that by (simp add: calculate_factor_metrics_nth factor_ratio_column_nth)
  moreover have "\<exists>recs. analysis_steps samples window = Inr recs" if "1 \<le> window"
    using analysis_steps_ok[OF that, of samples] by blast
  ultimately show ?thesis
    using classify_trend_zero_ma[of v t] by blast
qed

theorem zero_denominator_raises_nothing_witness:
  "classify_trend (Fin 0) (Fin 0) (Fin (1 / 1000)) = ''Stable'' \<and>
   classify_trend (Fin 1) (Fin 0) (Fin (1 / 1000)) = ''Increase'' \<and>
   Factor_Ratio (calculate_factor_metrics idle_rows ! 2) = PInf \<and>
   (\<exists>recs. analysis_steps idle_samples 2 = Inr recs)"
proof -
  have h: "(0::nat) < 2 \<and> 2 < length idle_rows \<and>
      Price (idle_rows ! (2 - 1)) * Volume (idle_rows ! (2 - 1)) = 0 \<and>
      0 \<le> Price (idle_rows ! (2 - 1)) \<and> 0 \<le> Volume (idle_rows ! (2 - 1))"
    by (simp add: idle_rows_def)
  have f: "Price (idle_rows ! 2) * Volume (idle_rows ! 2) = 5"
    by (simp add: idle_rows_def)
  have w: "(1::int) \<le> 2" by simp
  note t = zero_denominator_raises_nothing[of _ "1 / 1000" 2 idle_rows 2 idle_samples]
  from t[of 0] have "classify_trend (Fin 0) (Fin 0) (Fin (1 / 1000)) = ''Stable''"
    by simp
  moreover from t[of 1] have "classify_trend (Fin 1) (Fin 0) (Fin (1 / 1000)) = ''Increase''"
    by simp
  moreover from t[of 0] h have "Factor_Ratio (calculate_factor_metrics idle_rows ! 2)
        = (if Price (idle_rows ! 2) * Volume (idle_rows ! 2) = 0 then Fin 1
           else if 0 < Price (idle_rows ! 2) * Volume (idle_rows ! 2) then PInf else NInf)"
    by blast
  then have "Factor_Ratio (calculate_factor_metrics idle_rows ! 2) = PInf"
    unfolding f by simp
  moreover from t[of 0] w have "\<exists>recs. analysis_steps idle_samples 2 = Inr recs"
    by blast
  ultimately show ?thesis by blast
qed

section \<open>The dominant behavior\<close>

text \<open>
  C2, as the claim states it, fails: on the first two samples of the scenario the
  behaviors are Stable Market, then Buying Pressure, once each, and the run reports
  Buying Pressure, the later of the two.
\<close>

theorem dominant_behavior_counterexample:
  "main_analysis (Some tied_samples) 2 = Inr (tied_records, ''Buying Pressure'') \<and>
   map Behavior tied_records = [''Stable Market'', ''Buying Pressure''] \<and>
   count_list (map Behavior tied_records) ''Stable Market''
     = count_list (map Behavior tied_records) ''Buying Pressure''"
  by (simp add: tied_run tied_behaviors)

text \<open>
  C2, amended. For every non-empty column of behaviors, the reported dominant behavior is
  a label of the column with the highest count, and among the labels that share the
  highest count it is the least one in the order of strings (character by character, as
  the sorted result of \<^verbatim>\<open>mode\<close> has it), wherever the labels stand in the column.
\<close>

theorem dominant_behavior_is_least_top_label:
  assumes "behaviors \<noteq> []"
  shows "\<exists>m. most_common_behavior behaviors = Inr m \<and> m \<in> set behaviors \<and>
           (\<forall>y. count_list behaviors y \<le> count_list behaviors m) \<and>
           (\<forall>y. count_list behaviors y = count_list behaviors m \<longrightarrow> m \<le> y)"
  by (rule most_common_behavior_ok[OF assms])

theorem dominant_behavior_is_least_top_label_witness:
  "[''Stable Market'', ''Buying Pressure''] \<noteq> [] \<and>
   most_common_behavior [''Stable Market'', ''Buying Pressure''] = Inr ''Buying Pressure''"
proof -
  let ?col = "[''Stable Market'', ''Buying Pressure'']"
  have ne: "?col \<noteq> []" by simp
  from dominant_behavior_is_least_top_label[OF ne] obtain m
    where m: "most_common_behavior ?col = Inr m" "m \<in> set ?col"
      and least: "\<forall>y. count_list ?col y = count_list ?col m \<longrightarrow> m \<le> y"
    by blast
  have "m \<noteq> ''Stable Market''"
  proof
    assume e: "m = ''Stable Market''"
    have "count_list ?col ''Buying Pressure'' = count_list ?col ''Stable Market''"
      by simp
    with least e have "''Stable Market'' \<le> ''Buying Pressure''"
      by blast
    then show False by simp
  qed
  with m(2) have "m = ''Buying Pressure''" by simp
  with m(1) ne show ?thesis by simp
qed

section \<open>What the run checks of its input\<close>

text \<open>
  C8, as the claim states it, fails: the run on \<open>unruly_samples\<close>, whose timestamps
  decrease and whose first price and volume are negative, returns its records, the
  samples unchanged in them; and the classifier accepts a negative threshold.
\<close>

theorem invalid_input_counterexample:
  "main_analysis (Some unruly_samples) 2 = Inr (unruly_records, ''Selling Pressure'') \<and>
   map Timestamp unruly_samples = [5, 1] \<and>
   map Price unruly_samples = [- 2, 1] \<and>
   map Volume unruly_samples = [- 3, 5] \<and>
   map Timestamp unruly_records = [5, 1] \<and>
   map Price unruly_records = [- 2, 1] \<and>
   map Volume unruly_records = [- 3, 5] \<and>
   classify_trend (Fin 1) (Fin 1) (Fin (- 1)) = ''Increase''"
  by (simp add: unruly_run)
    (simp add: unruly_records_def unruly_samples_def classify_trend_def fsub_def)

text \<open>
  C8, amended. The run has no classification of invalid input and checks two things
  only. A fetch that gave nothing, or an empty frame, is reported as a failed fetch
  before anything is computed. A window below one (the sidebar's input, bounded to
  \<open>2 \<dots> 20\<close>, never supplies one) is refused by the rolling window with a
  \<^verbatim>\<open>ValueError\<close>. Every other input is analysed, whatever the signs of its prices and
  volumes and the order of its timestamps: each sample gives one record, in order,
  with its timestamp, price and volume unchanged. The threshold is not an input of the
  run.
\<close>

theorem run_checks_emptiness_and_window_only:
  "main_analysis None window = Inl FetchFailed \<and>
   main_analysis (Some []) window = Inl FetchFailed \<and>
   (data \<noteq> [] \<and> window < 1 \<longrightarrow> main_analysis (Some data) window = Inl ValueError) \<and>
   (data \<noteq> [] \<and> 1 \<le> window \<longrightarrow>
      (\<exists>recs m. main_analysis (Some data) window = Inr (recs, m) \<and>
         length recs = length data \<and>
         (\<forall>i<length data.
            Timestamp (recs ! i) = Timestamp (data ! i) \<and>
            Price (recs ! i) = Price (data ! i) \<and>
            Volume (recs ! i) = Volume (data ! i))))"
proof -
  have low: "main_analysis (Some data) window = Inl ValueError"
    if "data \<noteq> []" "window < 1"
    using that
    by (simp add: main_analysis_def analysis_steps_def calculate_moving_averages_def
        rolling_mean_def)
  have run: "\<exists>recs m. main_analysis (Some data) window = Inr (recs, m) \<and>
         length recs = length data \<and>
         (\<forall>i<length data.
            Timestamp (recs ! i) = Timestamp (data ! i) \<and>
            Price (recs ! i) = Price (data ! i) \<and>
            Volume (recs ! i) = Volume (data ! i))"
    if ne: "data \<noteq> []" and w: "1 \<le> window"
  proof -
    from analysis_steps_sample[OF w, of data] obtain recs
      where r: "analysis_steps data window = Inr recs" "length recs = length data"
        and f: "\<forall>i<length data.
            Timestamp (recs ! i) = Timestamp (data ! i) \<and>
            Price (recs ! i) = Price (data ! i) \<and>
            Volume (recs ! i) = Volume (data ! i)"
      by blast
    from r(2) ne have "map Behavior recs \<noteq> []" by auto
    from most_common_behavior_ok[OF this] obtain m
      where "most_common_behavior (map Behavior recs) = Inr m"
      by blast
    with r(1) ne have "main_analysis (Some data) window = Inr (recs, m)"
      by (simp add: main_analysis_def)
    with r(2) f show ?thesis by blast
  qed
  have "main_analysis None window = Inl FetchFailed"
    and "main_analysis (Some []) window = Inl FetchFailed"
    by (simp_all add: main_analysis_def)
  with low run show ?thesis by blast
qed

theorem run_checks_emptiness_and_window_only_witness:
  "unruly_samples \<noteq> [] \<and> (1::int) \<le> 2 \<and>
   (\<exists>recs m. main_analysis (Some unruly_samples) 2 = Inr (recs, m) \<and> length recs = 2) \<and>
   main_analysis (Some unruly_samples) 0 = Inl ValueError"
proof -
  have h: "unruly_samples \<noteq> [] \<and> (1::int) \<le> 2"
    and l: "unruly_samples \<noteq> [] \<and> (0::int) < 1"
    and n: "length unruly_samples = 2"
    by (simp_all add: unruly_samples_def)
  from run_checks_emptiness_and_window_only[of 2 unruly_samples] h n
  have "\<exists>recs m. main_analysis (Some unruly_samples) 2 = Inr (recs, m) \<and> length recs = 2"
    by auto
  moreover from run_checks_emptiness_and_window_only[of 0 unruly_samples] l
  have "main_analysis (Some unruly_samples) 0 = Inl ValueError"
    by blast
  ultimately show ?thesis using h by blast
qed

section \<open>Rounding\<close>

lemma rhe_bounds: "\<lfloor>r\<rfloor> \<le> rhe r \<and> rhe r \<le> \<lfloor>r\<rfloor> + 1"
  by (simp add: rhe_def Let_def)

lemma rhe_of_int: "rhe (of_int n) = n"
  by (simp add: rhe_def)

lemma rhe_abs_le:
  assumes "\<bar>r\<bar> \<le> of_int N"
  shows "\<bar>rhe r\<bar> \<le> N"
proof -
  from assms have "- of_int N \<le> r" "r \<le> of_int N" by linarith+
  then have "- N \<le> \<lfloor>r\<rfloor>" "\<lfloor>r\<rfloor> \<le> N"
    by (simp_all add: le_floor_iff floor_le_iff)
  moreover have "rhe r = \<lfloor>r\<rfloor>" if "\<lfloor>r\<rfloor> = N"
  proof -
    from that \<open>r \<le> of_int N\<close> have "r = of_int N"
      by (metis floor_less_cancel leD le_less of_int_floor_le order_antisym)
    then show ?thesis using that by (simp add: rhe_of_int)
  qed
  ultimately show ?thesis using rhe_bounds[of r] by (cases "\<lfloor>r\<rfloor> = N") auto
qed


lemma round64_zero: "round64 0 = Fin 0"
  by (simp add: round64_def)

lemma round64_normal:
  assumes k: "- 1074 \<le> k" "k \<le> 970"
    and lo: "2 powi (k + 52) \<le> \<bar>x\<bar>" and hi: "\<bar>x\<bar> < 2 powi (k + 53)"
  shows "round64 x = Fin (of_int (rhe (x / 2 powi k)) * 2 powi k)"
proof -
  have pos: "0 < \<bar>x\<bar>"
    using lo by (meson less_le_trans zero_less_numeral zero_less_power_int)
  then have x0: "x \<noteq> 0" by auto
  have "\<lfloor>log 2 \<bar>x\<bar>\<rfloor> = k + 52"
    using lo hi pos
    by (subst floor_log_eq_powr_iff) (simp_all add: powr_real_of_int' add.commute flip: of_int_add)
  then have e: "max \<lfloor>log 2 \<bar>x\<bar>\<rfloor> (- 1022) = k + 52"
    using k by simp
  let ?q = "2 powi k :: real"
  have q: "0 < ?q" by simp
  have "\<bar>x / ?q\<bar> = \<bar>x\<bar> / ?q" by simp
  also have "\<dots> \<le> 2 powi (k + 53) / ?q"
    using hi by (intro divide_right_mono) simp_all
  also have "\<dots> = 2 ^ 53"
    by (simp add: power_int_add)
  finally have "\<bar>x / ?q\<bar> \<le> of_int (2 ^ 53)" by simp
  then have n: "\<bar>rhe (x / ?q)\<bar> \<le> 2 ^ 53" by (rule rhe_abs_le)
  have "\<bar>of_int (rhe (x / ?q)) * ?q\<bar> = of_int \<bar>rhe (x / ?q)\<bar> * ?q"
    by (simp add: abs_mult)
  also have "\<dots> \<le> 2 ^ 53 * ?q"
    using n q by (simp add: mult_right_mono flip: of_int_abs)
  also have "\<dots> \<le> 2 ^ 53 * 2 powi 970"
  proof (rule mult_left_mono)
    show "?q \<le> 2 powi 970"
      using k(2) by (intro power_int_increasing) simp_all
  qed simp
  also have "\<dots> < 2 ^ 1024" by simp
  finally have "\<not> 2 ^ 1024 \<le> \<bar>of_int (rhe (x / ?q)) * ?q\<bar>" by simp
  then show ?thesis
    using x0 by (simp add: round64_def e Let_def)
qed

lemma fadd64_Fin: "fadd64 (Fin a) (Fin b) = round64 (a + b)"
  by (simp add: fadd64_def)

lemma fsub64_Fin: "fsub64 (Fin a) (Fin b) = round64 (a - b)"
  by (simp add: fsub64_def fadd64_def)

lemma fdiv64_Fin: "b \<noteq> 0 \<Longrightarrow> fdiv64 (Fin a) (Fin b) = round64 (a / b)"
  by (simp add: fdiv64_def)



lemma round64_boundary_ma: "round64 (51182 / 100) = Fin (9004032661252997 / 2 ^ 44)"
proof -
  let ?x = "51182 / 100 :: real"
  have "round64 ?x = Fin (of_int (rhe (?x / 2 powi (- 44))) * 2 powi (- 44))"
    by (rule round64_normal) simp_all
  also have "rhe (?x / 2 powi (- 44)) = 9004032661252997"
    by (simp add: rhe_def Let_def)
  finally show ?thesis by simp
qed

lemma round64_boundary_threshold: "round64 (1 / 1000) = Fin (1152921504606847 / 2 ^ 60)"
proof -
  let ?x = "1 / 1000 :: real"
  have "round64 ?x = Fin (of_int (rhe (?x / 2 powi (- 62))) * 2 powi (- 62))"
    by (rule round64_normal) simp_all
  also have "rhe (?x / 2 powi (- 62)) = 4611686018427388"
    by (simp add: rhe_def Let_def)
  finally show ?thesis by simp
qed

lemma round64_boundary_one_plus: "round64 (1 + 1152921504606847 / 2 ^ 60) = Fin (2254051613498933 / 2 ^ 51)"
proof -
  let ?x = "1 + 1152921504606847 / 2 ^ 60 :: real"
  have "round64 ?x = Fin (of_int (rhe (?x / 2 powi (- 52))) * 2 powi (- 52))"
    by (rule round64_normal) simp_all
  also have "rhe (?x / 2 powi (- 52)) = 4508103226997866"
    by (simp add: rhe_def Let_def)
  finally show ?thesis by simp
qed

lemma round64_boundary_product: "round64 (9004032661252997 / 2 ^ 44 * (2254051613498933 / 2 ^ 51)) = Fin (4506518346957125 / 2 ^ 43)"
proof -
  let ?x = "9004032661252997 / 2 ^ 44 * (2254051613498933 / 2 ^ 51) :: real"
  have "round64 ?x = Fin (of_int (rhe (?x / 2 powi (- 43))) * 2 powi (- 43))"
    by (rule round64_normal) simp_all
  also have "rhe (?x / 2 powi (- 43)) = 4506518346957125"
    by (simp add: rhe_def Let_def)
  finally show ?thesis by simp
qed

lemma round64_boundary_difference: "round64 (4506518346957125 / 2 ^ 43 - 9004032661252997 / 2 ^ 44) = Fin (9004032661253 / 2 ^ 44)"
proof -
  let ?x = "4506518346957125 / 2 ^ 43 - 9004032661252997 / 2 ^ 44 :: real"
  have "round64 ?x = Fin (of_int (rhe (?x / 2 powi (- 53))) * 2 powi (- 53))"
    by (rule round64_normal) simp_all
  also have "rhe (?x / 2 powi (- 53)) = 4610064722561536"
    by (simp add: rhe_def Let_def)
  finally show ?thesis by simp
qed

lemma round64_boundary_quotient: "round64 (9004032661253 / 2 ^ 44 / (9004032661252997 / 2 ^ 44)) = Fin (4611686018427389 / 2 ^ 62)"
proof -
  let ?x = "9004032661253 / 2 ^ 44 / (9004032661252997 / 2 ^ 44) :: real"
  have "round64 ?x = Fin (of_int (rhe (?x / 2 powi (- 62))) * 2 powi (- 62))"
    by (rule round64_normal) simp_all
  also have "rhe (?x / 2 powi (- 62)) = 4611686018427389"
    by (simp add: rhe_def Let_def)
  finally show ?thesis by simp
qed






lemma round64_one: "round64 (1) = Fin (1)"
proof -
  let ?x = "1 :: real"
  have "round64 ?x = Fin (of_int (rhe (?x / 2 powi (- 52))) * 2 powi (- 52))"
    by (rule round64_normal) simp_all
  also have "rhe (?x / 2 powi (- 52)) = 4503599627370496"
    by (simp add: rhe_def Let_def)
  finally show ?thesis by simp
qed




section \<open>The factor ratio in float64\<close>









section \<open>The classifier in float64\<close>

lemma ratio_cases:
  assumes "0 < t"
  shows "\<not> (fgt r (Fin t) \<and> flt r (Fin (- t)))"
  using assms by (cases r) (simp_all add: flt_def)

text \<open>
  C3, as the claim states it, fails at the boundary. With the moving average 511.82 and
  the threshold 0.001 (their nearest \<^verbatim>\<open>float64\<close> values), the value \<^verbatim>\<open>ma * (1 + threshold)\<close>
  computed in \<^verbatim>\<open>float64\<close> gives the ratio \<^verbatim>\<open>0.0010000000000000002\<close>, one place above the
  threshold, and the classifier returns Increase.
\<close>

theorem boundary_counterexample:
  "round64 (51182 / 100) = Fin boundary_ma \<and>
   round64 (1 / 1000) = Fin boundary_threshold \<and>
   fadd64 (Fin 1) (Fin boundary_threshold) = Fin (2254051613498933 / 2 ^ 51) \<and>
   round64 (boundary_ma * (2254051613498933 / 2 ^ 51)) = Fin boundary_value \<and>
   trend_ratio_f64 (Fin boundary_value) (Fin boundary_ma)
     = Fin (boundary_threshold + 1 / 2 ^ 62) \<and>
   classify_trend_f64 (Fin boundary_value) (Fin boundary_ma) (Fin boundary_threshold)
     = ''Increase''"
proof -
  have r: "fdiv64 (fsub64 (Fin boundary_value) (Fin boundary_ma)) (Fin boundary_ma)
      = Fin (4611686018427389 / 2 ^ 62)"
    unfolding boundary_value_def boundary_ma_def
    using round64_boundary_difference round64_boundary_quotient
    by (simp add: fsub64_Fin fdiv64_Fin)
  have e: "(4611686018427389 / 2 ^ 62 :: real) = boundary_threshold + 1 / 2 ^ 62"
    by (simp add: boundary_threshold_def)
  have "classify_trend_f64 (Fin boundary_value) (Fin boundary_ma) (Fin boundary_threshold)
     = ''Increase''"
    unfolding classify_trend_f64_def r Let_def
    by (simp add: boundary_threshold_def)
  moreover have "trend_ratio_f64 (Fin boundary_value) (Fin boundary_ma)
     = Fin (boundary_threshold + 1 / 2 ^ 62)"
    unfolding trend_ratio_f64_def r e ..
  moreover have "fadd64 (Fin 1) (Fin boundary_threshold) = Fin (2254051613498933 / 2 ^ 51)"
    unfolding boundary_threshold_def fadd64_Fin by (rule round64_boundary_one_plus)
  moreover have "round64 (boundary_ma * (2254051613498933 / 2 ^ 51)) = Fin boundary_value"
    unfolding boundary_ma_def boundary_value_def by (rule round64_boundary_product)
  moreover have "round64 (51182 / 100) = Fin boundary_ma"
    unfolding boundary_ma_def by (rule round64_boundary_ma)
  moreover have "round64 (1 / 1000) = Fin boundary_threshold"
    unfolding boundary_threshold_def by (rule round64_boundary_threshold)
  ultimately show ?thesis by blast
qed

text \<open>
  C3, amended. For every value \<open>v\<close>, moving average \<open>m \<noteq> 0\<close> and positive threshold
  \<open>t\<close>, the classifier computes its ratio as the \<^verbatim>\<open>float64\<close> quotient by \<open>m\<close> of the
  \<^verbatim>\<open>float64\<close> difference \<open>v - m\<close>, and returns Increase exactly when that computed ratio
  is above \<open>t\<close>, Decrease exactly when it is below \<open>-t\<close> and Stable otherwise. The
  boundary is exclusive: a computed ratio equal to \<open>t\<close> gives Stable. When the
  difference and the quotient are exact in \<^verbatim>\<open>float64\<close>, the computed ratio is
  \<open>(v - m) / m\<close>; \<open>v = m * (1 + t)\<close> computed in \<^verbatim>\<open>float64\<close> does not make it equal to \<open>t\<close>.
\<close>

theorem classify_trend_f64_by_computed_ratio:
  assumes "m \<noteq> 0" and "0 < t"
  shows "(\<forall>d. round64 (v - m) = Fin d \<longrightarrow>
            trend_ratio_f64 (Fin v) (Fin m) = round64 (d / m)) \<and>
         (classify_trend_f64 (Fin v) (Fin m) (Fin t) = ''Increase'')
            = fgt (trend_ratio_f64 (Fin v) (Fin m)) (Fin t) \<and>
         (classify_trend_f64 (Fin v) (Fin m) (Fin t) = ''Decrease'')
            = flt (trend_ratio_f64 (Fin v) (Fin m)) (Fin (- t)) \<and>
         (classify_trend_f64 (Fin v) (Fin m) (Fin t) = ''Stable'')
            = (\<not> fgt (trend_ratio_f64 (Fin v) (Fin m)) (Fin t) \<and>
               \<not> flt (trend_ratio_f64 (Fin v) (Fin m)) (Fin (- t))) \<and>
         (trend_ratio_f64 (Fin v) (Fin m) = Fin t \<longrightarrow>
            classify_trend_f64 (Fin v) (Fin m) (Fin t) = ''Stable'') \<and>
         (round64 (v - m) = Fin (v - m) \<and> round64 ((v - m) / m) = Fin ((v - m) / m) \<longrightarrow>
            trend_ratio_f64 (Fin v) (Fin m) = Fin ((v - m) / m) \<and>
            classify_trend_f64 (Fin v) (Fin m) (Fin t)
              = (if t < (v - m) / m then ''Increase''
                 else if (v - m) / m < - t then ''Decrease'' else ''Stable''))"
proof -
  let ?r = "trend_ratio_f64 (Fin v) (Fin m)"
  have c: "classify_trend_f64 (Fin v) (Fin m) (Fin t)
      = (if fgt ?r (Fin t) then ''Increase''
         else if flt ?r (Fin (- t)) then ''Decrease'' else ''Stable'')"
    by (simp add: classify_trend_f64_def trend_ratio_f64_def Let_def)
  have x: "\<not> (fgt ?r (Fin t) \<and> flt ?r (Fin (- t)))"
    by (rule ratio_cases[OF assms(2)])
  have d: "?r = round64 (d / m)" if "round64 (v - m) = Fin d" for d
    using that assms(1) by (simp add: trend_ratio_f64_def fsub64_Fin fdiv64_Fin)
  have b: "classify_trend_f64 (Fin v) (Fin m) (Fin t) = ''Stable''" if "?r = Fin t"
    using assms(2) by (simp add: c that flt_def)
  have e: "?r = Fin ((v - m) / m) \<and>
            classify_trend_f64 (Fin v) (Fin m) (Fin t)
              = (if t < (v - m) / m then ''Increase''
                 else if (v - m) / m < - t then ''Decrease'' else ''Stable'')"
    if "round64 (v - m) = Fin (v - m)" "round64 ((v - m) / m) = Fin ((v - m) / m)"
  proof -
    from d[OF that(1)] that(2) have "?r = Fin ((v - m) / m)" by simp
    then show ?thesis by (simp add: c flt_def)
  qed
  have i: "(classify_trend_f64 (Fin v) (Fin m) (Fin t) = ''Increase'') = fgt ?r (Fin t)"
    and dd: "(classify_trend_f64 (Fin v) (Fin m) (Fin t) = ''Decrease'') = flt ?r (Fin (- t))"
    and s: "(classify_trend_f64 (Fin v) (Fin m) (Fin t) = ''Stable'')
            = (\<not> fgt ?r (Fin t) \<and> \<not> flt ?r (Fin (- t)))"
    using x by (auto simp: c)
  from d b e i dd s show ?thesis by blast
qed

theorem classify_trend_f64_by_computed_ratio_witness:
  "boundary_ma \<noteq> 0 \<and> 0 < boundary_threshold \<and>
   round64 (boundary_value - boundary_ma) = Fin (9004032661253 / 2 ^ 44) \<and>
   trend_ratio_f64 (Fin boundary_value) (Fin boundary_ma) = round64 (9004032661253 / 2 ^ 44 / boundary_ma) \<and>
   fgt (trend_ratio_f64 (Fin boundary_value) (Fin boundary_ma)) (Fin boundary_threshold) \<and>
   classify_trend_f64 (Fin boundary_value) (Fin boundary_ma) (Fin boundary_threshold)
     = ''Increase'' \<and>
   classify_trend_f64 (Fin 2) (Fin 1) (Fin boundary_threshold) = ''Increase''"
proof -
  have h: "boundary_ma \<noteq> 0" "0 < boundary_threshold" "(1::real) \<noteq> 0"
    by (simp_all add: boundary_ma_def boundary_threshold_def)
  note t = classify_trend_f64_by_computed_ratio[OF h(1,2), of boundary_value]
  note u = classify_trend_f64_by_computed_ratio[OF h(3,2), of 2]
  have d: "round64 (boundary_value - boundary_ma) = Fin (9004032661253 / 2 ^ 44)"
    unfolding boundary_value_def boundary_ma_def by (rule round64_boundary_difference)
  with t have r: "trend_ratio_f64 (Fin boundary_value) (Fin boundary_ma)
      = round64 (9004032661253 / 2 ^ 44 / boundary_ma)"
    by blast
  then have "trend_ratio_f64 (Fin boundary_value) (Fin boundary_ma) = Fin (4611686018427389 / 2 ^ 62)"
    unfolding boundary_ma_def using round64_boundary_quotient by simp
  then have g: "fgt (trend_ratio_f64 (Fin boundary_value) (Fin boundary_ma))
      (Fin boundary_threshold)"
    by (simp add: boundary_threshold_def)
  with t have i: "classify_trend_f64 (Fin boundary_value) (Fin boundary_ma)
      (Fin boundary_threshold) = ''Increase''"
    by blast
  have "round64 (2 - 1) = Fin (2 - 1) \<and> round64 ((2 - 1) / 1) = Fin ((2 - 1) / 1)"
    by (simp add: round64_one)
  with u have "classify_trend_f64 (Fin 2) (Fin 1) (Fin boundary_threshold)
      = (if boundary_threshold < (2 - 1) / 1 then ''Increase''
         else if (2 - 1) / 1 < - boundary_threshold then ''Decrease'' else ''Stable'')"
    by blast
  then have "classify_trend_f64 (Fin 2) (Fin 1) (Fin boundary_threshold) = ''Increase''"
    by (simp add: boundary_threshold_def)
  with h d r g i show ?thesis by blast
qed

section \<open>The rolling mean in float64\<close>




















section \<open>Where the rolling mean is the rounded arithmetic mean\<close>




lemma exact64_zero: "exact64 0"
  by (simp add: exact64_def round64_zero)






lemma start_prev: "prev_value (start_state x) = x" "num_consecutive_same_value (start_state x) = 0"
  by (simp_all add: start_state_def)























section \<open>The moving average engine\<close>




end
